theory Spec2Isabelle
  imports
    Main
    "HOL-Library.Multiset"
    "HOL-Library.Sublist"
    "HOL-Library.Char_ord"
    "HOL-Library.List_Lexorder"
    "HOL-Library.Product_Lexorder"
begin

section \<open>The upgrade command of vcpkg (src/vcpkg/commands.upgrade.cpp)\<close>

text \<open>
  The command is one C++ function, \<^verbatim>\<open>perform_and_exit\<close>, that talks to a status
  database, a port file provider, a dependency planner and an installer, prints to the
  console and leaves through \<^verbatim>\<open>Checks::exit_...\<close>. The model below makes all of that
  explicit: the collaborators are fields of a record \<open>world\<close>, every observable call is
  an \<open>event\<close> appended to a trace, and the function returns the trace together with the
  process exit code and the status database as the run left it.
\<close>

subsection \<open>Data model\<close>

text \<open>
  Modelled from the spec: \<^verbatim>\<open>PackageSpec\<close> (declared in packagespec.h, which is not
  among the files verified here) is the pair of a port name and a triplet; \<^verbatim>\<open>to_string\<close> renders it as
  \<^verbatim>\<open>name:triplet\<close>, and the order is the lexicographic one on the pair.
\<close>

datatype PackageSpec = PackageSpec (name: string) (triplet: string)

definition to_string :: "PackageSpec \<Rightarrow> string" where
  "to_string spec = name spec @ '':'' @ triplet spec"

definition spec_key :: "PackageSpec \<Rightarrow> string \<times> string" where
  "spec_key spec = (name spec, triplet spec)"

text \<open>
  Modelled from the spec: \<^verbatim>\<open>Util::sort\<close> (util.h) sorts a vector in place with the
  element type's order. Two specs with the same key are the same value, so every sorting
  algorithm yields the same sequence as the insertion sort used here.
\<close>

definition Util_sort :: "PackageSpec list \<Rightarrow> PackageSpec list" where
  "Util_sort xs = sort_key spec_key xs"

text \<open>
  Modelled from the spec: a \<^verbatim>\<open>Version\<close> (versions.h) is an upstream version string with
  a port revision; its \<^verbatim>\<open>operator==\<close> is structural, which is the equality of the
  datatype. No order on versions is defined.
\<close>

datatype Version = Version (version_text: string) (port_version: int)

text \<open>The two paragraphs the classifier reads versions from (only the fields it reads).\<close>

record SourceParagraph =
  raw_version :: string
  source_port_version :: int

record BinaryParagraph =
  version :: string
  binary_port_version :: int

text \<open>
  Modelled from the spec: \<^verbatim>\<open>StatusParagraphs::find_installed\<close> yields the installed
  record of a spec or the end iterator, and \<^verbatim>\<open>get_control_file\<close> the recipe of a port
  name or nothing. Both are finite maps here.
\<close>

type_synonym StatusParagraphs = "PackageSpec \<rightharpoonup> BinaryParagraph"
type_synonym PortFileProvider = "string \<rightharpoonup> SourceParagraph"

datatype KeepGoing = NO | YES

datatype UnsupportedPortAction = Warn | Error

datatype Color = Color_success | Color_error | Color_warning

record OutdatedPackage =
  outdated_spec :: PackageSpec
  version_diff :: "Version \<times> Version"

record CreateInstallPlanOptions =
  host_triplet :: string
  unsupported_port_action :: UnsupportedPortAction

text \<open>
  Modelled from the spec: an action plan holds remove actions, install actions and
  warnings; an install action carries its spec and a build-options record. The layout of
  the build options is declared elsewhere, so their type is a parameter \<open>'o\<close>.
\<close>

record 'o InstallPlanAction =
  install_spec :: PackageSpec
  build_options :: 'o

record 'o ActionPlan =
  remove_actions :: "PackageSpec list"
  install_actions :: "'o InstallPlanAction list"
  warnings :: "string list"

definition ActionPlan_empty :: "'o ActionPlan \<Rightarrow> bool" where
  "ActionPlan_empty plan \<longleftrightarrow> remove_actions plan = [] \<and> install_actions plan = []"

text \<open>
  Modelled from the spec: the installer's summary lists one outcome per action
  (success, failure, or skipped because a dependency failed).
\<close>

datatype BuildResult = SUCCEEDED | BUILD_FAILED | CASCADED_DUE_TO_MISSING_DEPENDENCIES

type_synonym InstallSummary = "(PackageSpec \<times> BuildResult) list"

subsection \<open>Effects\<close>

datatype fatal_error =
    ManifestModeNotSupported
  | BothYesAndNoOptionSpecifiedError string

datatype lookup = Find_installed PackageSpec | Get_control_file string

datatype 'o event =
    Fatal fatal_error
  | Print "Color option" string
  | Lookup lookup
  | Find_outdated_packages
  | Create_upgrade_plan "PackageSpec list" CreateInstallPlanOptions
  | Print_plan "'o ActionPlan"
  | Load_tag_vars "'o ActionPlan"
  | Install_perform "'o ActionPlan" KeepGoing
  | Summary_print InstallSummary

text \<open>
  The collaborators and inputs of one run. \<open>switches\<close> and \<open>specs\<close> are what argument
  parsing (line 78) and input sanitization (lines 96-99) return, \<open>status_db\<close> what
  \<^verbatim>\<open>database_load_check\<close> returns (line 88); constructing the binary cache, the port file
  provider and the CMake variable provider is taken to succeed and leaves no event. The
  planner and the installer may end the process themselves (\<open>Inl\<close> of the exit code)
  instead of returning; the installer receives the status database by reference, so it
  hands back the database as it left it in both cases.
\<close>

record 'o world =
  manifest_mode_enabled :: bool
  switches :: "string set"
  specs :: "PackageSpec list"
  run_host_triplet :: string
  status_db :: StatusParagraphs
  provider :: PortFileProvider
  find_outdated_packages :: "PortFileProvider \<Rightarrow> StatusParagraphs \<Rightarrow> OutdatedPackage list"
  create_upgrade_plan ::
    "PortFileProvider \<Rightarrow> PackageSpec list \<Rightarrow> StatusParagraphs \<Rightarrow> CreateInstallPlanOptions
      \<Rightarrow> int + 'o ActionPlan"
  default_build_package_options :: 'o
  install_perform ::
    "'o ActionPlan \<Rightarrow> KeepGoing \<Rightarrow> StatusParagraphs \<Rightarrow> (int + InstallSummary) \<times> StatusParagraphs"
  timer_to_string :: string

record 'o outcome =
  trace :: "'o event list"
  exit_code :: int
  final_status_db :: StatusParagraphs

text \<open>
  Modelled from the spec: \<^verbatim>\<open>Checks::exit_success\<close> ends the process with exit code zero;
  \<^verbatim>\<open>Checks::exit_fail\<close>, \<^verbatim>\<open>Checks::exit_maybe_upgrade\<close> and a \<^verbatim>\<open>Checks::check_exit\<close>
  whose condition is false end it with a nonzero one (checks.h is not among the files
  verified here).
\<close>

definition EXIT_SUCCESS :: int where "EXIT_SUCCESS = 0"
definition EXIT_FAILURE :: int where "EXIT_FAILURE = 1"

subsection \<open>Option names\<close>

definition OPTION_NO_DRY_RUN :: string where "OPTION_NO_DRY_RUN = ''no-dry-run''"
definition OPTION_KEEP_GOING :: string where "OPTION_KEEP_GOING = ''keep-going''"
definition OPTION_NO_KEEP_GOING :: string where "OPTION_NO_KEEP_GOING = ''no-keep-going''"
definition OPTION_ALLOW_UNSUPPORTED_PORT :: string where
  "OPTION_ALLOW_UNSUPPORTED_PORT = ''allow-unsupported''"

subsection \<open>determine_keep_going (lines 47-64)\<close>

text \<open>
  \<^verbatim>\<open>Checks::check_exit\<close> with a message ends the process when its condition is false;
  the message \<^verbatim>\<open>msgBothYesAndNoOptionSpecifiedError\<close> is formatted with the option name.
\<close>

definition determine_keep_going :: "bool \<Rightarrow> bool \<Rightarrow> fatal_error + KeepGoing" where
  "determine_keep_going keep_going_set no_keep_going_set =
     (if \<not> (\<not> (keep_going_set \<and> no_keep_going_set))
      then Inl (BothYesAndNoOptionSpecifiedError OPTION_KEEP_GOING)
      else if keep_going_set then Inr YES
      else if no_keep_going_set then Inr NO
      else Inr YES)"

subsection \<open>The classification loop (lines 122-159)\<close>

record buckets =
  not_installed :: "PackageSpec list"
  no_control_file :: "PackageSpec list"
  to_upgrade :: "PackageSpec list"
  up_to_date :: "PackageSpec list"
  lookups :: "lookup list"

definition empty_buckets :: buckets where
  "empty_buckets =
     \<lparr>not_installed = [], no_control_file = [], to_upgrade = [], up_to_date = [], lookups = []\<rparr>"

text \<open>
  One iteration of the loop body for \<open>spec\<close>. Both lookups are made before
  \<^verbatim>\<open>skip_version_check\<close> is read; \<^verbatim>\<open>value_or_exit\<close> and the dereference of the iterator
  are reached only when both have succeeded, so the last case below is never taken.
\<close>

definition classify_spec :: "StatusParagraphs \<Rightarrow> PortFileProvider \<Rightarrow> buckets \<Rightarrow> PackageSpec \<Rightarrow> buckets" where
  "classify_spec db prov b spec =
     (let installed_status = db spec;
          b1 = b\<lparr>lookups := lookups b @ [Find_installed spec]\<rparr>;
          b2 = (if installed_status = None
                then b1\<lparr>not_installed := not_installed b1 @ [spec]\<rparr> else b1);
          skip1 = (installed_status = None);
          maybe_control_file = prov (name spec);
          b3 = b2\<lparr>lookups := lookups b2 @ [Get_control_file (name spec)]\<rparr>;
          b4 = (if maybe_control_file = None
                then b3\<lparr>no_control_file := no_control_file b3 @ [spec]\<rparr> else b3);
          skip_version_check = (skip1 \<or> maybe_control_file = None)
      in if skip_version_check then b4
         else (case (maybe_control_file, installed_status) of
                 (Some control_paragraph, Some installed_paragraph) \<Rightarrow>
                   (let control_version =
                          Version (raw_version control_paragraph)
                                  (source_port_version control_paragraph);
                        installed_version =
                          Version (version installed_paragraph)
                                  (binary_port_version installed_paragraph)
                    in if control_version = installed_version
                       then b4\<lparr>up_to_date := up_to_date b4 @ [spec]\<rparr>
                       else b4\<lparr>to_upgrade := to_upgrade b4 @ [spec]\<rparr>)
               | _ \<Rightarrow> b4))"

definition classify :: "StatusParagraphs \<Rightarrow> PortFileProvider \<Rightarrow> PackageSpec list \<Rightarrow> buckets" where
  "classify db prov xs = foldl (classify_spec db prov) empty_buckets xs"

text \<open>The four calls of \<^verbatim>\<open>Util::sort\<close> (lines 161-164).\<close>

definition sort_buckets :: "buckets \<Rightarrow> buckets" where
  "sort_buckets b =
     b\<lparr>not_installed := Util_sort (not_installed b),
       no_control_file := Util_sort (no_control_file b),
       up_to_date := Util_sort (up_to_date b),
       to_upgrade := Util_sort (to_upgrade b)\<rparr>"

definition classified :: "'o world \<Rightarrow> buckets" where
  "classified w = sort_buckets (classify (status_db w) (provider w) (specs w))"

subsection \<open>Bucket summaries (lines 166-189)\<close>

text \<open>
  The lambda handed to \<^verbatim>\<open>Strings::join\<close>, and the join itself with its empty delimiter.
\<close>

definition bucket_line :: "PackageSpec \<Rightarrow> string" where
  "bucket_line spec = ''    '' @ to_string spec @ ''\<newline>''"

definition bucket_lines :: "PackageSpec list \<Rightarrow> string" where
  "bucket_lines b = concat (map bucket_line b)"

definition print_bucket :: "Color \<Rightarrow> string \<Rightarrow> PackageSpec list \<Rightarrow> 'o event list" where
  "print_bucket color header b =
     (if b \<noteq> [] then [Print (Some color) header, Print None (bucket_lines b @ ''\<newline>'')]
      else [])"

definition up_to_date_header :: string where
  "up_to_date_header = ''The following packages are up-to-date:\<newline>''"

definition not_installed_header :: string where
  "not_installed_header = ''The following packages are not installed:\<newline>''"

definition no_control_file_header :: string where
  "no_control_file_header =
     ''The following packages do not have a valid CONTROL or vcpkg.json:\<newline>''"

definition print_summaries :: "buckets \<Rightarrow> 'o event list" where
  "print_summaries b =
     print_bucket Color_success up_to_date_header (up_to_date b)
     @ print_bucket Color_error not_installed_header (not_installed b)
     @ print_bucket Color_error no_control_file_header (no_control_file b)"

subsection \<open>Choosing what to rebuild and planning (lines 101-197)\<close>

definition all_up_to_date_message :: string where
  "all_up_to_date_message =
     ''All installed packages are up-to-date with the local portfiles.\<newline>''"

text \<open>
  The call of \<^verbatim>\<open>Dependencies::create_upgrade_plan\<close>: the result is either the exit
  of the process inside the planner or the trace so far with the plan.
\<close>

definition call_create_upgrade_plan ::
  "'o world \<Rightarrow> 'o event list \<Rightarrow> PackageSpec list \<Rightarrow> UnsupportedPortAction
    \<Rightarrow> ('o event list \<times> int) + ('o event list \<times> 'o ActionPlan)" where
  "call_create_upgrade_plan w tr to_plan action =
     (let opts = \<lparr>host_triplet = run_host_triplet w, unsupported_port_action = action\<rparr>;
          tr' = tr @ [Create_upgrade_plan to_plan opts]
      in case create_upgrade_plan w (provider w) to_plan (status_db w) opts of
           Inl code \<Rightarrow> Inl (tr', code)
         | Inr plan \<Rightarrow> Inr (tr', plan))"

definition select_action_plan ::
  "'o world \<Rightarrow> UnsupportedPortAction
    \<Rightarrow> ('o event list \<times> int) + ('o event list \<times> 'o ActionPlan)" where
  "select_action_plan w action =
     (if specs w = [] then
        (let outdated_packages = find_outdated_packages w (provider w) (status_db w)
         in if outdated_packages = []
            then Inl ([Find_outdated_packages, Print None all_up_to_date_message], EXIT_SUCCESS)
            else call_create_upgrade_plan w [Find_outdated_packages]
                   (map outdated_spec outdated_packages) action)
      else
        (let b = classified w;
             tr = map Lookup (lookups b) @ print_summaries b
         in if \<not> (not_installed b = [] \<and> no_control_file b = []) then Inl (tr, EXIT_FAILURE)
            else if to_upgrade b = [] then Inl (tr, EXIT_SUCCESS)
            else call_create_upgrade_plan w tr (to_upgrade b) action))"

subsection \<open>Presenting and executing the plan (lines 199-238)\<close>

definition dry_run_advisory :: string where
  "dry_run_advisory =
     ''If you are sure you want to rebuild the above packages, run this command with the --no-dry-run option.\<newline>''"

definition set_build_settings :: "'o \<Rightarrow> 'o ActionPlan \<Rightarrow> 'o ActionPlan" where
  "set_build_settings opts plan =
     plan\<lparr>install_actions :=
            map (\<lambda>action. action\<lparr>build_options := opts\<rparr>) (install_actions plan)\<rparr>"

definition elapsed_message :: "string \<Rightarrow> string" where
  "elapsed_message t = ''\<newline>Total elapsed time: '' @ t @ ''\<newline>\<newline>''"

definition present_and_execute ::
  "'o world \<Rightarrow> bool \<Rightarrow> KeepGoing \<Rightarrow> 'o event list \<Rightarrow> 'o ActionPlan \<Rightarrow> 'o outcome" where
  "present_and_execute w no_dry_run keep_going tr plan0 =
     (if \<not> (\<not> ActionPlan_empty plan0)
      then \<lparr>trace = tr, exit_code = EXIT_FAILURE, final_status_db = status_db w\<rparr>
      else
        (let tr1 = tr @ map (\<lambda>warning. Print (Some Color_warning) (warning @ ''\<newline>''))
                          (warnings plan0);
             action_plan = set_build_settings (default_build_package_options w) plan0;
             tr2 = tr1 @ [Print_plan action_plan]
         in if \<not> no_dry_run
            then \<lparr>trace = tr2 @ [Print (Some Color_warning) dry_run_advisory],
                  exit_code = EXIT_FAILURE, final_status_db = status_db w\<rparr>
            else
              (let tr3 = tr2 @ [Load_tag_vars action_plan, Install_perform action_plan keep_going]
               in case install_perform w action_plan keep_going (status_db w) of
                    (Inl code, db') \<Rightarrow>
                      \<lparr>trace = tr3, exit_code = code, final_status_db = db'\<rparr>
                  | (Inr summary, db') \<Rightarrow>
                      \<lparr>trace = tr3 @ [Print None (elapsed_message (timer_to_string w))]
                                 @ (if keep_going = YES then [Summary_print summary] else []),
                       exit_code = EXIT_SUCCESS, final_status_db = db'\<rparr>)))"

subsection \<open>perform_and_exit (lines 66-239)\<close>

definition perform_and_exit :: "'o world \<Rightarrow> 'o outcome" where
  "perform_and_exit w =
     (if manifest_mode_enabled w
      then \<lparr>trace = [Fatal ManifestModeNotSupported], exit_code = EXIT_FAILURE,
            final_status_db = status_db w\<rparr>
      else
        (let no_dry_run = (OPTION_NO_DRY_RUN \<in> switches w)
         in case determine_keep_going (OPTION_KEEP_GOING \<in> switches w)
                                      (OPTION_NO_KEEP_GOING \<in> switches w) of
              Inl e \<Rightarrow>
                \<lparr>trace = [Fatal e], exit_code = EXIT_FAILURE, final_status_db = status_db w\<rparr>
            | Inr keep_going \<Rightarrow>
                (let action = (if OPTION_ALLOW_UNSUPPORTED_PORT \<in> switches w then Warn else Error)
                 in case select_action_plan w action of
                      Inl (tr, code) \<Rightarrow>
                        \<lparr>trace = tr, exit_code = code, final_status_db = status_db w\<rparr>
                    | Inr (tr, plan) \<Rightarrow> present_and_execute w no_dry_run keep_going tr plan)))"

section \<open>Vocabulary of the properties\<close>

text \<open>
  What the classifier decides for a spec that is installed and has a recipe: whether the
  two versions are equal. \<open>None\<close> when one of the two lookups fails.
\<close>

definition version_matches :: "StatusParagraphs \<Rightarrow> PortFileProvider \<Rightarrow> PackageSpec \<Rightarrow> bool option" where
  "version_matches db prov spec =
     (case (db spec, prov (name spec)) of
        (Some installed_paragraph, Some control_paragraph) \<Rightarrow>
          Some (Version (raw_version control_paragraph) (source_port_version control_paragraph)
                = Version (version installed_paragraph) (binary_port_version installed_paragraph))
      | _ \<Rightarrow> None)"

text \<open>The order of \<^verbatim>\<open>PackageSpec\<close> written out: by name, then by triplet.\<close>

definition PackageSpec_le :: "PackageSpec \<Rightarrow> PackageSpec \<Rightarrow> bool" where
  "PackageSpec_le a b \<longleftrightarrow> name a < name b \<or> (name a = name b \<and> triplet a \<le> triplet b)"

text \<open>Events that neither build, show nor execute a plan.\<close>

fun plan_free :: "'o event \<Rightarrow> bool" where
  "plan_free (Fatal e) = True"
| "plan_free (Print c s) = True"
| "plan_free (Lookup l) = True"
| "plan_free Find_outdated_packages = True"
| "plan_free _ = False"

text \<open>The plan an event shows or executes, if any.\<close>

fun plan_of :: "'o event \<Rightarrow> 'o ActionPlan option" where
  "plan_of (Print_plan p) = Some p"
| "plan_of (Load_tag_vars p) = Some p"
| "plan_of (Install_perform p kg) = Some p"
| "plan_of _ = None"


section \<open>Example runs\<close>

text \<open>
  One installed tree and one ports tree: zlib is installed at 1.2.13 while its recipe says
  1.2.11 (the recipe is the older one), curl is installed at the recipe's version, and foo
  is neither installed nor known to the provider. The example planner rebuilds exactly
  the specs it is given and attaches build options that differ from the default; the
  example installer reports every action as failed.
\<close>

definition zlib :: PackageSpec where "zlib = PackageSpec ''zlib'' ''x64-linux''"
definition curl :: PackageSpec where "curl = PackageSpec ''curl'' ''x64-linux''"
definition foo :: PackageSpec where "foo = PackageSpec ''foo'' ''x64-linux''"

definition example_db :: StatusParagraphs where
  "example_db = [zlib \<mapsto> \<lparr>version = ''1.2.13'', binary_port_version = 0\<rparr>,
                 curl \<mapsto> \<lparr>version = ''7.80'', binary_port_version = 0\<rparr>]"

definition example_provider :: PortFileProvider where
  "example_provider = [''zlib'' \<mapsto> \<lparr>raw_version = ''1.2.11'', source_port_version = 0\<rparr>,
                       ''curl'' \<mapsto> \<lparr>raw_version = ''7.80'', source_port_version = 0\<rparr>]"

definition example_plan :: "PackageSpec list \<Rightarrow> nat ActionPlan" where
  "example_plan xs =
     \<lparr>remove_actions = xs,
      install_actions = map (\<lambda>s. \<lparr>install_spec = s, build_options = 7\<rparr>) xs,
      warnings = []\<rparr>"

definition example_world :: "nat world" where
  "example_world =
     \<lparr>manifest_mode_enabled = False, switches = {}, specs = [],
      run_host_triplet = ''x64-linux'',
      status_db = example_db, provider = example_provider,
      find_outdated_packages = (\<lambda>prov db. []),
      create_upgrade_plan = (\<lambda>prov xs db opts. Inr (example_plan xs)),
      default_build_package_options = 0,
      install_perform =
        (\<lambda>plan keep_going db.
           (Inr (map (\<lambda>a. (install_spec a, BUILD_FAILED)) (install_actions plan)), db)),
      timer_to_string = ''1.5 s''\<rparr>"

section \<open>The classification loop as four filters\<close>

lemma classify_spec_not_installed:
  "not_installed (classify_spec db prov b s) = not_installed b @ (if db s = None then [s] else [])"
  by (auto simp: classify_spec_def Let_def split: option.splits)

lemma classify_spec_no_control_file:
  "no_control_file (classify_spec db prov b s)
   = no_control_file b @ (if prov (name s) = None then [s] else [])"
  by (auto simp: classify_spec_def Let_def split: option.splits)

lemma classify_spec_up_to_date:
  "up_to_date (classify_spec db prov b s)
   = up_to_date b @ (if version_matches db prov s = Some True then [s] else [])"
  by (auto simp: classify_spec_def version_matches_def Let_def split: option.splits)

lemma classify_spec_to_upgrade:
  "to_upgrade (classify_spec db prov b s)
   = to_upgrade b @ (if version_matches db prov s = Some False then [s] else [])"
  by (auto simp: classify_spec_def version_matches_def Let_def split: option.splits)

lemma classify_spec_lookups:
  "lookups (classify_spec db prov b s) = lookups b @ [Find_installed s, Get_control_file (name s)]"
  by (auto simp: classify_spec_def Let_def split: option.splits)

lemma foldl_not_installed:
  "not_installed (foldl (classify_spec db prov) b xs)
   = not_installed b @ filter (\<lambda>s. db s = None) xs"
  by (induction xs arbitrary: b) (simp_all add: classify_spec_not_installed)

lemma foldl_no_control_file:
  "no_control_file (foldl (classify_spec db prov) b xs)
   = no_control_file b @ filter (\<lambda>s. prov (name s) = None) xs"
  by (induction xs arbitrary: b) (simp_all add: classify_spec_no_control_file)

lemma foldl_up_to_date:
  "up_to_date (foldl (classify_spec db prov) b xs)
   = up_to_date b @ filter (\<lambda>s. version_matches db prov s = Some True) xs"
  by (induction xs arbitrary: b) (simp_all add: classify_spec_up_to_date)

lemma foldl_to_upgrade:
  "to_upgrade (foldl (classify_spec db prov) b xs)
   = to_upgrade b @ filter (\<lambda>s. version_matches db prov s = Some False) xs"
  by (induction xs arbitrary: b) (simp_all add: classify_spec_to_upgrade)

lemma foldl_lookups:
  "lookups (foldl (classify_spec db prov) b xs)
   = lookups b @ concat (map (\<lambda>s. [Find_installed s, Get_control_file (name s)]) xs)"
  by (induction xs arbitrary: b) (simp_all add: classify_spec_lookups)

lemma inj_spec_key: "inj spec_key"
  by (rule injI) (simp add: spec_key_def PackageSpec.expand)


lemma classified_not_installed:
  "not_installed (classified w) = Util_sort (filter (\<lambda>s. status_db w s = None) (specs w))"
  by (simp add: classified_def sort_buckets_def classify_def foldl_not_installed empty_buckets_def)

lemma classified_no_control_file:
  "no_control_file (classified w)
   = Util_sort (filter (\<lambda>s. provider w (name s) = None) (specs w))"
  by (simp add: classified_def sort_buckets_def classify_def foldl_no_control_file empty_buckets_def)

lemma classified_up_to_date:
  "up_to_date (classified w)
   = Util_sort (filter (\<lambda>s. version_matches (status_db w) (provider w) s = Some True) (specs w))"
  by (simp add: classified_def sort_buckets_def classify_def foldl_up_to_date empty_buckets_def)

lemma classified_to_upgrade:
  "to_upgrade (classified w)
   = Util_sort (filter (\<lambda>s. version_matches (status_db w) (provider w) s = Some False) (specs w))"
  by (simp add: classified_def sort_buckets_def classify_def foldl_to_upgrade empty_buckets_def)

lemma classified_lookups:
  "lookups (classified w)
   = concat (map (\<lambda>s. [Find_installed s, Get_control_file (name s)]) (specs w))"
  by (simp add: classified_def sort_buckets_def classify_def foldl_lookups empty_buckets_def)

lemmas classified_simps =
  classified_not_installed classified_no_control_file classified_up_to_date
  classified_to_upgrade classified_lookups

lemma set_Util_sort: "set (Util_sort xs) = set xs"
  by (simp add: Util_sort_def)


lemma PackageSpec_le_key: "PackageSpec_le a b \<longleftrightarrow> spec_key a \<le> spec_key b"
  by (auto simp: PackageSpec_le_def spec_key_def)

lemma sorted_Util_sort: "sorted_wrt PackageSpec_le (Util_sort xs)"
proof -
  have "sorted (map spec_key (Util_sort xs))"
    by (simp add: Util_sort_def)
  then show ?thesis
    by (simp add: sorted_wrt_map PackageSpec_le_key[abs_def])
qed

lemma Util_sort_cong_mset:
  assumes "mset xs = mset ys"
  shows "Util_sort (filter P xs) = Util_sort (filter P ys)"
proof -
  have "mset (filter P xs) = mset (filter P ys)"
    using assms by (metis mset_filter)
  then show ?thesis
    unfolding Util_sort_def
    by (rule sort_key_eq_sort_key) (rule inj_on_subset[OF inj_spec_key], simp)
qed

section \<open>The shape of a run\<close>

lemma plan_free_print_bucket:
  "e \<in> set (print_bucket c h b) \<Longrightarrow> plan_free e"
  by (auto simp: print_bucket_def split: if_splits)

lemma plan_free_print_summaries:
  "e \<in> set (print_summaries b) \<Longrightarrow> plan_free e"
  by (auto simp: print_summaries_def dest: plan_free_print_bucket)

lemma plan_free_classification:
  "e \<in> set (map Lookup ls @ print_summaries b) \<Longrightarrow> plan_free e"
  by (auto dest: plan_free_print_summaries)

lemma select_action_plan_Inl:
  assumes "select_action_plan w action = Inl (tr, code)"
  shows "(\<forall>e \<in> set tr. plan_free e)
         \<or> (\<exists>tr0 sp. tr = tr0 @ [Create_upgrade_plan sp
                 \<lparr>host_triplet = run_host_triplet w, unsupported_port_action = action\<rparr>]
               \<and> (\<forall>e \<in> set tr0. plan_free e)
               \<and> create_upgrade_plan w (provider w) sp (status_db w)
                    \<lparr>host_triplet = run_host_triplet w, unsupported_port_action = action\<rparr> = Inl code)"
  using assms
  unfolding select_action_plan_def call_create_upgrade_plan_def Let_def
  by (auto split: if_splits sum.splits dest: plan_free_classification plan_free_print_summaries)

lemma select_action_plan_Inr:
  assumes "select_action_plan w action = Inr (tr, plan)"
  shows "\<exists>tr0 sp. tr = tr0 @ [Create_upgrade_plan sp
                 \<lparr>host_triplet = run_host_triplet w, unsupported_port_action = action\<rparr>]
               \<and> (\<forall>e \<in> set tr0. plan_free e)
               \<and> create_upgrade_plan w (provider w) sp (status_db w)
                    \<lparr>host_triplet = run_host_triplet w, unsupported_port_action = action\<rparr> = Inr plan"
  using assms
  unfolding select_action_plan_def call_create_upgrade_plan_def Let_def
  by (auto split: if_splits sum.splits dest: plan_free_classification plan_free_print_summaries)

lemma perform_and_exit_cases:
  obtains
    (early) tr code where
      "perform_and_exit w = \<lparr>trace = tr, exit_code = code, final_status_db = status_db w\<rparr>"
      "\<forall>e \<in> set tr. plan_free e"
  | (planner_exit) tr0 sp opts code where
      "perform_and_exit w = \<lparr>trace = tr0 @ [Create_upgrade_plan sp opts], exit_code = code,
                              final_status_db = status_db w\<rparr>"
      "\<forall>e \<in> set tr0. plan_free e"
      "create_upgrade_plan w (provider w) sp (status_db w) opts = Inl code"
  | (planned) tr0 sp opts plan keep_going where
      "perform_and_exit w = present_and_execute w (OPTION_NO_DRY_RUN \<in> switches w) keep_going
                              (tr0 @ [Create_upgrade_plan sp opts]) plan"
      "\<forall>e \<in> set tr0. plan_free e"
      "create_upgrade_plan w (provider w) sp (status_db w) opts = Inr plan"
      "determine_keep_going (OPTION_KEEP_GOING \<in> switches w) (OPTION_NO_KEEP_GOING \<in> switches w)
         = Inr keep_going"
proof (cases "manifest_mode_enabled w")
  case True
  then have "perform_and_exit w = \<lparr>trace = [Fatal ManifestModeNotSupported], exit_code = EXIT_FAILURE,
            final_status_db = status_db w\<rparr>"
    by (simp add: perform_and_exit_def)
  then show ?thesis by (rule early) simp
next
  case nm: False
  show ?thesis
  proof (cases "determine_keep_going (OPTION_KEEP_GOING \<in> switches w) (OPTION_NO_KEEP_GOING \<in> switches w)")
    case (Inl e)
    with nm have "perform_and_exit w = \<lparr>trace = [Fatal e], exit_code = EXIT_FAILURE,
            final_status_db = status_db w\<rparr>"
      by (simp add: perform_and_exit_def)
    then show ?thesis by (rule early) simp
  next
    case kg: (Inr keep_going)
    define action where "action = (if OPTION_ALLOW_UNSUPPORTED_PORT \<in> switches w then Warn else Error)"
    show ?thesis
    proof (cases "select_action_plan w action")
      case (Inl a)
      obtain tr code where a: "a = (tr, code)" by (cases a)
      with Inl nm kg have r: "perform_and_exit w = \<lparr>trace = tr, exit_code = code, final_status_db = status_db w\<rparr>"
        by (simp add: perform_and_exit_def action_def)
      from select_action_plan_Inl[OF Inl[unfolded a]] show ?thesis
      proof
        assume "\<forall>e \<in> set tr. plan_free e"
        with r show ?thesis by (rule early)
      next
        assume "\<exists>tr0 sp. tr = tr0 @ [Create_upgrade_plan sp
                 \<lparr>host_triplet = run_host_triplet w, unsupported_port_action = action\<rparr>]
               \<and> (\<forall>e \<in> set tr0. plan_free e)
               \<and> create_upgrade_plan w (provider w) sp (status_db w)
                    \<lparr>host_triplet = run_host_triplet w, unsupported_port_action = action\<rparr> = Inl code"
        then obtain tr0 sp where "tr = tr0 @ [Create_upgrade_plan sp
                 \<lparr>host_triplet = run_host_triplet w, unsupported_port_action = action\<rparr>]"
             "\<forall>e \<in> set tr0. plan_free e"
             "create_upgrade_plan w (provider w) sp (status_db w)
                    \<lparr>host_triplet = run_host_triplet w, unsupported_port_action = action\<rparr> = Inl code"
          by blast
        with r show ?thesis by (intro planner_exit) simp_all
      qed
    next
      case (Inr a)
      obtain tr plan where a: "a = (tr, plan)" by (cases a)
      with Inr nm kg have r: "perform_and_exit w = present_and_execute w (OPTION_NO_DRY_RUN \<in> switches w) keep_going tr plan"
        by (simp add: perform_and_exit_def action_def)
      from select_action_plan_Inr[OF Inr[unfolded a]]
      obtain tr0 sp where "tr = tr0 @ [Create_upgrade_plan sp
                 \<lparr>host_triplet = run_host_triplet w, unsupported_port_action = action\<rparr>]"
             "\<forall>e \<in> set tr0. plan_free e"
             "create_upgrade_plan w (provider w) sp (status_db w)
                    \<lparr>host_triplet = run_host_triplet w, unsupported_port_action = action\<rparr> = Inr plan"
        by blast
      with r kg show ?thesis by (intro planned) simp_all
    qed
  qed
qed

lemma plan_free_trace:
  assumes "\<forall>e \<in> set tr. plan_free e"
  shows "Create_upgrade_plan sp opts \<notin> set tr" and "Print_plan p \<notin> set tr"
    and "Load_tag_vars p \<notin> set tr" and "Install_perform p kg \<notin> set tr"
    and "Summary_print s \<notin> set tr"
  using assms by fastforce+

lemma kg_no_conflict:
  assumes "\<not> (a \<and> b)"
  shows "\<exists>kg. determine_keep_going a b = Inr kg"
  using assms by (auto simp: determine_keep_going_def)

lemma perform_and_exit_classification_failed:
  assumes "\<not> manifest_mode_enabled w"
      and "\<not> (OPTION_KEEP_GOING \<in> switches w \<and> OPTION_NO_KEEP_GOING \<in> switches w)"
      and "specs w \<noteq> []"
      and "\<not> (not_installed (classified w) = [] \<and> no_control_file (classified w) = [])"
  shows "perform_and_exit w =
           \<lparr>trace = map Lookup (lookups (classified w)) @ print_summaries (classified w),
            exit_code = EXIT_FAILURE, final_status_db = status_db w\<rparr>"
proof -
  from kg_no_conflict[OF assms(2)] obtain kg where
    "determine_keep_going (OPTION_KEEP_GOING \<in> switches w) (OPTION_NO_KEEP_GOING \<in> switches w) = Inr kg"
    by blast
  with assms(1,3,4) show ?thesis
    by (simp add: perform_and_exit_def select_action_plan_def Let_def)
qed



lemmas example_defs =
  example_world_def example_db_def example_provider_def example_plan_def
  zlib_def curl_def foo_def

lemmas run_defs =
  perform_and_exit_def determine_keep_going_def select_action_plan_def
  call_create_upgrade_plan_def present_and_execute_def set_build_settings_def
  classified_def sort_buckets_def classify_def classify_spec_def empty_buckets_def
  Util_sort_def spec_key_def print_summaries_def print_bucket_def bucket_lines_def bucket_line_def
  to_string_def ActionPlan_empty_def Let_def
  OPTION_KEEP_GOING_def OPTION_NO_KEEP_GOING_def OPTION_NO_DRY_RUN_def
  OPTION_ALLOW_UNSUPPORTED_PORT_def EXIT_SUCCESS_def EXIT_FAILURE_def

section \<open>Sublists of the output and uniform build options\<close>

lemma lookups_sublist:
  assumes "spec \<in> set xs"
  shows "sublist [Lookup (Find_installed spec), Lookup (Get_control_file (name spec))]
           (map Lookup (concat (map (\<lambda>s. [Find_installed s, Get_control_file (name s)]) xs)) @ rest)"
proof -
  from assms obtain us vs where xs: "xs = us @ spec # vs"
    by (auto dest: split_list)
  have eq: "map Lookup (concat (map (\<lambda>s. [Find_installed s, Get_control_file (name s)]) xs)) @ rest
    = map Lookup (concat (map (\<lambda>s. [Find_installed s, Get_control_file (name s)]) us))
      @ [Lookup (Find_installed spec), Lookup (Get_control_file (name spec))]
      @ (map Lookup (concat (map (\<lambda>s. [Find_installed s, Get_control_file (name s)]) vs)) @ rest)"
    unfolding xs by simp
  show ?thesis
    unfolding eq by (rule sublist_appendI)
qed

lemma set_build_settings_uniform:
  "a \<in> set (install_actions (set_build_settings d plan)) \<Longrightarrow> build_options a = d"
  by (auto simp: set_build_settings_def)

lemma set_build_settings_frame:
  "map install_spec (install_actions (set_build_settings d plan)) = map install_spec (install_actions plan)"
  "remove_actions (set_build_settings d plan) = remove_actions plan"
  "warnings (set_build_settings d plan) = warnings plan"
  by (simp_all add: set_build_settings_def comp_def)

lemma plan_free_plan_of: "plan_free e \<Longrightarrow> plan_of e = None"
  by (cases e) simp_all

lemma present_and_execute_plan_of:
  assumes "e \<in> set (trace (present_and_execute w ndr kg (tr0 @ [Create_upgrade_plan sp opts]) plan))"
      and "\<forall>e \<in> set tr0. plan_free e"
      and "plan_of e = Some p"
  shows "p = set_build_settings (default_build_package_options w) plan"
proof -
  have "plan_of e' = None" if "e' \<in> set tr0" for e'
    using that assms(2) plan_free_plan_of by blast
  with assms(1,3) show ?thesis
    by (auto simp: present_and_execute_def Let_def split: if_splits prod.splits sum.splits)
qed

section \<open>The trace of a run with specs\<close>




lemma concat_map_sublist:
  assumes "x \<in> set b"
  shows "sublist (f x) (concat (map f b))"
proof -
  from assms obtain xs ys where "b = xs @ x # ys"
    by (auto dest: split_list)
  then have eq: "concat (map f b) = concat (map f xs) @ f x @ concat (map f ys)"
    by simp
  show ?thesis
    unfolding eq by (rule sublist_appendI)
qed


section \<open>Keep-going resolution\<close>

text \<open>
  C2. For each of the four combinations of the two switches: both set is the fatal
  error that names the option \<^verbatim>\<open>keep-going\<close>; only \<^verbatim>\<open>--keep-going\<close> gives YES; only
  \<^verbatim>\<open>--no-keep-going\<close> gives NO; neither gives YES.
\<close>

theorem determine_keep_going_table:
  "determine_keep_going True True = Inl (BothYesAndNoOptionSpecifiedError ''keep-going'')
   \<and> determine_keep_going True False = Inr YES
   \<and> determine_keep_going False True = Inr NO
   \<and> determine_keep_going False False = Inr YES"
  by (simp add: determine_keep_going_def OPTION_KEEP_GOING_def)


section \<open>The classifier\<close>

text \<open>
  C3. A spec of the input that is installed and has a recipe goes to \<open>up_to_date\<close> when
  the recipe's version (upstream string and port revision) equals the installed one, and
  to \<open>to_upgrade\<close> when the two differ in any way; it is in neither error bucket. Only
  the equality of the two versions is consulted, so a recipe older than the installed
  package is an upgrade as well.
\<close>

theorem classifier_compares_versions_by_equality:
  assumes "spec \<in> set (specs w)"
      and "status_db w spec = Some installed_paragraph"
      and "provider w (name spec) = Some control_paragraph"
  shows "(Version (raw_version control_paragraph) (source_port_version control_paragraph)
            = Version (version installed_paragraph) (binary_port_version installed_paragraph)
          \<longrightarrow> spec \<in> set (up_to_date (classified w)) \<and> spec \<notin> set (to_upgrade (classified w)))
       \<and> (Version (raw_version control_paragraph) (source_port_version control_paragraph)
            \<noteq> Version (version installed_paragraph) (binary_port_version installed_paragraph)
          \<longrightarrow> spec \<in> set (to_upgrade (classified w)) \<and> spec \<notin> set (up_to_date (classified w)))
       \<and> spec \<notin> set (not_installed (classified w))
       \<and> spec \<notin> set (no_control_file (classified w))"
  using assms
  by (simp add: classified_simps set_Util_sort version_matches_def)

theorem classifier_compares_versions_by_equality_witness:
  "zlib \<in> set (specs (example_world\<lparr>specs := [zlib, curl]\<rparr>))
   \<and> status_db (example_world\<lparr>specs := [zlib, curl]\<rparr>) zlib
       = Some \<lparr>version = ''1.2.13'', binary_port_version = 0\<rparr>
   \<and> provider (example_world\<lparr>specs := [zlib, curl]\<rparr>) (name zlib)
       = Some \<lparr>raw_version = ''1.2.11'', source_port_version = 0\<rparr>
   \<and> Version ''1.2.11'' 0 \<noteq> Version ''1.2.13'' 0
   \<and> zlib \<in> set (to_upgrade (classified (example_world\<lparr>specs := [zlib, curl]\<rparr>)))
   \<and> zlib \<notin> set (up_to_date (classified (example_world\<lparr>specs := [zlib, curl]\<rparr>)))
   \<and> curl \<in> set (specs (example_world\<lparr>specs := [zlib, curl]\<rparr>))
   \<and> status_db (example_world\<lparr>specs := [zlib, curl]\<rparr>) curl
       = Some \<lparr>version = ''7.80'', binary_port_version = 0\<rparr>
   \<and> provider (example_world\<lparr>specs := [zlib, curl]\<rparr>) (name curl)
       = Some \<lparr>raw_version = ''7.80'', source_port_version = 0\<rparr>
   \<and> curl \<in> set (up_to_date (classified (example_world\<lparr>specs := [zlib, curl]\<rparr>)))
   \<and> curl \<notin> set (to_upgrade (classified (example_world\<lparr>specs := [zlib, curl]\<rparr>)))"
  using classifier_compares_versions_by_equality
          [of zlib "example_world\<lparr>specs := [zlib, curl]\<rparr>"
              "\<lparr>version = ''1.2.13'', binary_port_version = 0\<rparr>"
              "\<lparr>raw_version = ''1.2.11'', source_port_version = 0\<rparr>"]
        classifier_compares_versions_by_equality
          [of curl "example_world\<lparr>specs := [zlib, curl]\<rparr>"
              "\<lparr>version = ''7.80'', binary_port_version = 0\<rparr>"
              "\<lparr>raw_version = ''7.80'', source_port_version = 0\<rparr>"]
  by (simp add: example_world_def example_db_def example_provider_def zlib_def curl_def)


text \<open>
  C6. Each of the four buckets is sorted by name and then triplet, and two inputs that
  are permutations of each other (over the same status database and provider) give the
  same four sequences.
\<close>

theorem buckets_sorted_whatever_the_input_order:
  "sorted_wrt PackageSpec_le (not_installed (classified w))
   \<and> sorted_wrt PackageSpec_le (no_control_file (classified w))
   \<and> sorted_wrt PackageSpec_le (up_to_date (classified w))
   \<and> sorted_wrt PackageSpec_le (to_upgrade (classified w))
   \<and> (mset (specs w') = mset (specs w) \<and> status_db w' = status_db w \<and> provider w' = provider w
        \<longrightarrow> not_installed (classified w') = not_installed (classified w)
          \<and> no_control_file (classified w') = no_control_file (classified w)
          \<and> up_to_date (classified w') = up_to_date (classified w)
          \<and> to_upgrade (classified w') = to_upgrade (classified w))"
proof -
  have "not_installed (classified w') = not_installed (classified w)
          \<and> no_control_file (classified w') = no_control_file (classified w)
          \<and> up_to_date (classified w') = up_to_date (classified w)
          \<and> to_upgrade (classified w') = to_upgrade (classified w)"
    if perm: "mset (specs w') = mset (specs w)"
      and same: "status_db w' = status_db w" "provider w' = provider w"
    by (simp add: classified_simps same Util_sort_cong_mset[OF perm])
  then show ?thesis
    by (simp add: classified_simps sorted_Util_sort)
qed


theorem buckets_sorted_whatever_the_input_order_witness:
  "mset (specs (example_world\<lparr>specs := [zlib, foo, curl, zlib]\<rparr>))
     = mset (specs (example_world\<lparr>specs := [curl, zlib, zlib, foo]\<rparr>))
   \<and> to_upgrade (classified (example_world\<lparr>specs := [zlib, foo, curl, zlib]\<rparr>))
     = to_upgrade (classified (example_world\<lparr>specs := [curl, zlib, zlib, foo]\<rparr>))
   \<and> to_upgrade (classified (example_world\<lparr>specs := [curl, zlib, zlib, foo]\<rparr>)) = [zlib, zlib]
   \<and> not_installed (classified (example_world\<lparr>specs := [zlib, foo, curl, zlib]\<rparr>)) = [foo]
   \<and> sorted_wrt PackageSpec_le
        (not_installed (classified (example_world\<lparr>specs := [zlib, PackageSpec ''foo'' ''arm64'', foo]\<rparr>)))
   \<and> not_installed (classified (example_world\<lparr>specs := [zlib, foo, PackageSpec ''foo'' ''arm64'']\<rparr>))
      = [PackageSpec ''foo'' ''arm64'', foo]"
  using buckets_sorted_whatever_the_input_order
          [of "example_world\<lparr>specs := [zlib, foo, curl, zlib]\<rparr>"
              "example_world\<lparr>specs := [curl, zlib, zlib, foo]\<rparr>"]
        buckets_sorted_whatever_the_input_order
          [of "example_world\<lparr>specs := [zlib, PackageSpec ''foo'' ''arm64'', foo]\<rparr>"
              "example_world\<lparr>specs := [zlib, PackageSpec ''foo'' ''arm64'', foo]\<rparr>"]
  by (simp add: example_defs run_defs)




section \<open>Leaving after classification\<close>




text \<open>
  C5. In a run that gets past the manifest check and the keep-going check, a spec of the
  input with no installed record and no recipe is in \<open>not_installed\<close> and in
  \<open>no_control_file\<close>; the trace ends with the "not installed" summary followed by the
  "no valid CONTROL or vcpkg.json" summary, and the body of each contains the line of
  the spec (four blanks, name, colon, triplet, newline); and the lookup of its recipe
  follows the failed lookup of its installed record.
\<close>

theorem unknown_spec_in_both_error_buckets:
  assumes "\<not> manifest_mode_enabled w"
      and "\<not> (OPTION_KEEP_GOING \<in> switches w \<and> OPTION_NO_KEEP_GOING \<in> switches w)"
      and "spec \<in> set (specs w)"
      and "status_db w spec = None"
      and "provider w (name spec) = None"
  shows "spec \<in> set (not_installed (classified w))
       \<and> spec \<in> set (no_control_file (classified w))
       \<and> (\<exists>pre. trace (perform_and_exit w)
             = pre @ [Print (Some Color_error) ''The following packages are not installed:\<newline>'',
                      Print None (concat (map (\<lambda>s. ''    '' @ name s @ '':'' @ triplet s @ ''\<newline>'')
                       (not_installed (classified w))) @ ''\<newline>''),
                      Print (Some Color_error)
                        ''The following packages do not have a valid CONTROL or vcpkg.json:\<newline>'',
                      Print None (concat (map (\<lambda>s. ''    '' @ name s @ '':'' @ triplet s @ ''\<newline>'')
                       (no_control_file (classified w))) @ ''\<newline>'')])
       \<and> sublist (''    '' @ name spec @ '':'' @ triplet spec @ ''\<newline>'')
           (concat (map (\<lambda>s. ''    '' @ name s @ '':'' @ triplet s @ ''\<newline>'')
                    (not_installed (classified w))))
       \<and> sublist (''    '' @ name spec @ '':'' @ triplet spec @ ''\<newline>'')
           (concat (map (\<lambda>s. ''    '' @ name s @ '':'' @ triplet s @ ''\<newline>'')
                    (no_control_file (classified w))))
       \<and> sublist [Lookup (Find_installed spec), Lookup (Get_control_file (name spec))]
           (trace (perform_and_exit w))"
proof -
  have ni: "spec \<in> set (not_installed (classified w))"
    using assms(3,4) by (simp add: classified_simps set_Util_sort)
  have nc: "spec \<in> set (no_control_file (classified w))"
    using assms(3,5) by (simp add: classified_simps set_Util_sort)
  from ni nc have ne: "not_installed (classified w) \<noteq> []" "no_control_file (classified w) \<noteq> []"
    by auto
  from assms(3) have "specs w \<noteq> []" by auto
  from perform_and_exit_classification_failed[OF assms(1,2) this] ne
  have r: "trace (perform_and_exit w)
           = map Lookup (lookups (classified w)) @ print_summaries (classified w)"
    by simp
  have "trace (perform_and_exit w)
          = (map Lookup (lookups (classified w))
             @ print_bucket Color_success up_to_date_header (up_to_date (classified w)))
            @ [Print (Some Color_error) ''The following packages are not installed:\<newline>'',
               Print None (concat (map (\<lambda>s. ''    '' @ name s @ '':'' @ triplet s @ ''\<newline>'')
                       (not_installed (classified w))) @ ''\<newline>''),
               Print (Some Color_error)
                 ''The following packages do not have a valid CONTROL or vcpkg.json:\<newline>'',
               Print None (concat (map (\<lambda>s. ''    '' @ name s @ '':'' @ triplet s @ ''\<newline>'')
                       (no_control_file (classified w))) @ ''\<newline>'')]"
    using ne
    by (simp add: r print_summaries_def print_bucket_def bucket_lines_def
          bucket_line_def [abs_def] to_string_def not_installed_header_def
          no_control_file_header_def)
  then have tr: "\<exists>pre. trace (perform_and_exit w)
             = pre @ [Print (Some Color_error) ''The following packages are not installed:\<newline>'',
                      Print None (concat (map (\<lambda>s. ''    '' @ name s @ '':'' @ triplet s @ ''\<newline>'')
                       (not_installed (classified w))) @ ''\<newline>''),
                      Print (Some Color_error)
                        ''The following packages do not have a valid CONTROL or vcpkg.json:\<newline>'',
                      Print None (concat (map (\<lambda>s. ''    '' @ name s @ '':'' @ triplet s @ ''\<newline>'')
                       (no_control_file (classified w))) @ ''\<newline>'')]"
    by blast
  have lk: "sublist [Lookup (Find_installed spec), Lookup (Get_control_file (name spec))]
           (trace (perform_and_exit w))"
    unfolding r classified_lookups by (rule lookups_sublist[OF assms(3)])
  have l1: "sublist (''    '' @ name spec @ '':'' @ triplet spec @ ''\<newline>'')
           (concat (map (\<lambda>s. ''    '' @ name s @ '':'' @ triplet s @ ''\<newline>'')
                    (not_installed (classified w))))"
    by (rule concat_map_sublist[OF ni])
  have l2: "sublist (''    '' @ name spec @ '':'' @ triplet spec @ ''\<newline>'')
           (concat (map (\<lambda>s. ''    '' @ name s @ '':'' @ triplet s @ ''\<newline>'')
                    (no_control_file (classified w))))"
    by (rule concat_map_sublist[OF nc])
  from ni nc tr l1 l2 lk show ?thesis
    by (intro conjI)
qed

theorem unknown_spec_in_both_error_buckets_witness:
  "\<not> manifest_mode_enabled (example_world\<lparr>specs := [zlib, foo]\<rparr>)
   \<and> \<not> (OPTION_KEEP_GOING \<in> switches (example_world\<lparr>specs := [zlib, foo]\<rparr>)
        \<and> OPTION_NO_KEEP_GOING \<in> switches (example_world\<lparr>specs := [zlib, foo]\<rparr>))
   \<and> foo \<in> set (specs (example_world\<lparr>specs := [zlib, foo]\<rparr>))
   \<and> status_db (example_world\<lparr>specs := [zlib, foo]\<rparr>) foo = None
   \<and> provider (example_world\<lparr>specs := [zlib, foo]\<rparr>) (name foo) = None
   \<and> foo \<in> set (not_installed (classified (example_world\<lparr>specs := [zlib, foo]\<rparr>)))
   \<and> foo \<in> set (no_control_file (classified (example_world\<lparr>specs := [zlib, foo]\<rparr>)))
   \<and> trace (perform_and_exit (example_world\<lparr>specs := [zlib, foo]\<rparr>))
      = [Lookup (Find_installed zlib), Lookup (Get_control_file ''zlib''),
         Lookup (Find_installed foo), Lookup (Get_control_file ''foo''),
         Print (Some Color_error) ''The following packages are not installed:\<newline>'',
         Print None ''    foo:x64-linux\<newline>\<newline>'',
         Print (Some Color_error)
           ''The following packages do not have a valid CONTROL or vcpkg.json:\<newline>'',
         Print None ''    foo:x64-linux\<newline>\<newline>'']"
  using unknown_spec_in_both_error_buckets[of "(example_world\<lparr>specs := [zlib, foo]\<rparr>)" foo]
  by (simp add: example_defs run_defs up_to_date_header_def not_installed_header_def
        no_control_file_header_def dry_run_advisory_def)

section \<open>Nothing to upgrade\<close>

text \<open>
  C7. A run without specs that reaches the scan for outdated packages and gets an empty
  result prints one message, which contains \<^verbatim>\<open>All installed packages are up-to-date\<close>,
  and exits with success; no plan is built or printed and the status database is as loaded.
\<close>

theorem nothing_outdated:
  assumes "specs w = []"
      and "Find_outdated_packages \<in> set (trace (perform_and_exit w))"
      and "find_outdated_packages w (provider w) (status_db w) = []"
  shows "trace (perform_and_exit w) = [Find_outdated_packages, Print None all_up_to_date_message]
       \<and> sublist ''All installed packages are up-to-date'' all_up_to_date_message
       \<and> exit_code (perform_and_exit w) = 0
       \<and> (\<forall>sp opts. Create_upgrade_plan sp opts \<notin> set (trace (perform_and_exit w)))
       \<and> (\<forall>p. Print_plan p \<notin> set (trace (perform_and_exit w)))
       \<and> final_status_db (perform_and_exit w) = status_db w"
proof -
  from assms(2) have nm: "\<not> manifest_mode_enabled w"
    by (auto simp: perform_and_exit_def)
  from assms(2) nm obtain kg where
    "determine_keep_going (OPTION_KEEP_GOING \<in> switches w) (OPTION_NO_KEEP_GOING \<in> switches w)
       = Inr kg"
    by (cases "determine_keep_going (OPTION_KEEP_GOING \<in> switches w)
                 (OPTION_NO_KEEP_GOING \<in> switches w)")
       (auto simp: perform_and_exit_def)
  with nm assms(1,3) have r: "perform_and_exit w =
     \<lparr>trace = [Find_outdated_packages, Print None all_up_to_date_message],
      exit_code = EXIT_SUCCESS, final_status_db = status_db w\<rparr>"
    by (simp add: perform_and_exit_def select_action_plan_def Let_def)
  have "prefix ''All installed packages are up-to-date'' all_up_to_date_message"
    by (simp add: all_up_to_date_message_def)
  then have "sublist ''All installed packages are up-to-date'' all_up_to_date_message"
    by (rule prefix_imp_sublist)
  then show ?thesis
    by (simp add: r EXIT_SUCCESS_def)
qed

theorem nothing_outdated_witness:
  "specs example_world = []
   \<and> Find_outdated_packages \<in> set (trace (perform_and_exit example_world))
   \<and> find_outdated_packages example_world (provider example_world) (status_db example_world) = []
   \<and> trace (perform_and_exit example_world)
      = [Find_outdated_packages,
         Print None ''All installed packages are up-to-date with the local portfiles.\<newline>'']
   \<and> exit_code (perform_and_exit example_world) = 0"
  using nothing_outdated[of example_world]
  by (simp add: example_defs run_defs all_up_to_date_message_def)

section \<open>The dry-run gate\<close>

text \<open>
  C4. A run that called the planner, got a non-empty plan back and was started without
  \<^verbatim>\<open>--no-dry-run\<close> ends its trace with the printed plan and the advisory to rerun with
  \<^verbatim>\<open>--no-dry-run\<close> (in the warning colour), exits nonzero,
  calls neither \<^verbatim>\<open>load_tag_vars\<close> nor the installer, and leaves the status database as it
  was loaded.
\<close>

theorem dry_run_gate:
  assumes reached: "Create_upgrade_plan sp opts \<in> set (trace (perform_and_exit w))"
      and planned: "create_upgrade_plan w (provider w) sp (status_db w) opts = Inr plan"
      and nonempty: "\<not> ActionPlan_empty plan"
      and dry: "OPTION_NO_DRY_RUN \<notin> switches w"
  shows "(\<exists>pre. trace (perform_and_exit w)
            = pre @ [Print_plan (set_build_settings (default_build_package_options w) plan),
                     Print (Some Color_warning)
                       ''If you are sure you want to rebuild the above packages, run this command with the --no-dry-run option.\<newline>'']
            \<and> (\<forall>e \<in> set pre. \<forall>p kg. e \<noteq> Install_perform p kg \<and> e \<noteq> Load_tag_vars p))
         \<and> exit_code (perform_and_exit w) \<noteq> 0
         \<and> (\<forall>p kg. Install_perform p kg \<notin> set (trace (perform_and_exit w)))
         \<and> (\<forall>p. Load_tag_vars p \<notin> set (trace (perform_and_exit w)))
         \<and> final_status_db (perform_and_exit w) = status_db w"
proof (cases w rule: perform_and_exit_cases)
  case (early tr code)
  with reached show ?thesis by auto
next
  case (planner_exit tr0 sp' opts' code)
  with reached have "sp' = sp \<and> opts' = opts" by auto
  with planner_exit planned show ?thesis by simp
next
  case (planned tr0 sp' opts' plan' keep_going)
  have same: "sp' = sp \<and> opts' = opts"
  proof (rule ccontr)
    assume "\<not> ?thesis"
    with reached planned(1) have "Create_upgrade_plan sp opts \<in> set tr0"
      by (auto simp: present_and_execute_def Let_def split: if_splits prod.splits sum.splits)
    with plan_free_trace(1)[OF planned(2)] show False by simp
  qed
  with planned(3) \<open>create_upgrade_plan w (provider w) sp (status_db w) opts = Inr plan\<close>
  have "plan' = plan" by simp
  with planned(1) nonempty dry same
  have r: "perform_and_exit w =
     \<lparr>trace = (tr0 @ [Create_upgrade_plan sp opts]
                 @ map (\<lambda>warning. Print (Some Color_warning) (warning @ ''\<newline>'')) (warnings plan))
               @ [Print_plan (set_build_settings (default_build_package_options w) plan),
                  Print (Some Color_warning)
                    ''If you are sure you want to rebuild the above packages, run this command with the --no-dry-run option.\<newline>''],
      exit_code = EXIT_FAILURE, final_status_db = status_db w\<rparr>"
    by (simp add: present_and_execute_def Let_def dry_run_advisory_def)
  show ?thesis
    unfolding r using plan_free_trace[OF planned(2)] by (auto simp: EXIT_FAILURE_def)
qed

theorem dry_run_gate_witness:
  "Create_upgrade_plan [zlib] \<lparr>host_triplet = ''x64-linux'', unsupported_port_action = Error\<rparr>
     \<in> set (trace (perform_and_exit (example_world\<lparr>specs := [zlib]\<rparr>)))
   \<and> create_upgrade_plan (example_world\<lparr>specs := [zlib]\<rparr>)
        (provider (example_world\<lparr>specs := [zlib]\<rparr>)) [zlib]
        (status_db (example_world\<lparr>specs := [zlib]\<rparr>))
        \<lparr>host_triplet = ''x64-linux'', unsupported_port_action = Error\<rparr>
      = Inr (example_plan [zlib])
   \<and> \<not> ActionPlan_empty (example_plan [zlib])
   \<and> OPTION_NO_DRY_RUN \<notin> switches (example_world\<lparr>specs := [zlib]\<rparr>)
   \<and> trace (perform_and_exit (example_world\<lparr>specs := [zlib]\<rparr>))
      = [Lookup (Find_installed zlib), Lookup (Get_control_file ''zlib''),
         Create_upgrade_plan [zlib] \<lparr>host_triplet = ''x64-linux'', unsupported_port_action = Error\<rparr>,
         Print_plan \<lparr>remove_actions = [zlib],
                     install_actions = [\<lparr>install_spec = zlib, build_options = 0\<rparr>],
                     warnings = []\<rparr>,
         Print (Some Color_warning)
           ''If you are sure you want to rebuild the above packages, run this command with the --no-dry-run option.\<newline>'']
   \<and> exit_code (perform_and_exit (example_world\<lparr>specs := [zlib]\<rparr>)) \<noteq> 0
   \<and> final_status_db (perform_and_exit (example_world\<lparr>specs := [zlib]\<rparr>)) = example_db"
  using dry_run_gate[of "[zlib]" "\<lparr>host_triplet = ''x64-linux'', unsupported_port_action = Error\<rparr>"
          "(example_world\<lparr>specs := [zlib]\<rparr>)" "example_plan [zlib]"]
  by (simp add: example_defs run_defs up_to_date_header_def not_installed_header_def
        no_control_file_header_def dry_run_advisory_def)

section \<open>Build options\<close>

text \<open>
  C8. Every plan that a run prints, hands to \<^verbatim>\<open>load_tag_vars\<close> or hands to the installer
  is the planner's plan with the build options of every install action replaced by the
  default build options, whatever the planner had attached; the specs of the install
  actions are the planner's.
\<close>

theorem build_options_uniform:
  assumes "e \<in> set (trace (perform_and_exit w))"
      and "e = Print_plan p \<or> e = Load_tag_vars p \<or> e = Install_perform p kg"
  shows "(\<forall>a \<in> set (install_actions p). build_options a = default_build_package_options w)
       \<and> (\<exists>sp opts plan.
            create_upgrade_plan w (provider w) sp (status_db w) opts = Inr plan
            \<and> p = set_build_settings (default_build_package_options w) plan
            \<and> map install_spec (install_actions p) = map install_spec (install_actions plan))"
proof -
  from assms(2) have po: "plan_of e = Some p" by auto
  show ?thesis
  proof (cases w rule: perform_and_exit_cases)
    case (early tr code)
    with assms(1) have "plan_free e" by simp
    with po show ?thesis by (simp add: plan_free_plan_of)
  next
    case (planner_exit tr0 sp opts code)
    with assms(1) have "plan_free e \<or> e = Create_upgrade_plan sp opts" by auto
    with po show ?thesis by (auto simp: plan_free_plan_of)
  next
    case (planned tr0 sp opts plan keep_going)
    from assms(1) have "e \<in> set (trace (present_and_execute w (OPTION_NO_DRY_RUN \<in> switches w)
            keep_going (tr0 @ [Create_upgrade_plan sp opts]) plan))"
      by (simp add: planned(1))
    from present_and_execute_plan_of[OF this planned(2) po]
    have p: "p = set_build_settings (default_build_package_options w) plan" .
    with planned(3) show ?thesis
      by (auto simp: set_build_settings_uniform set_build_settings_frame)
  qed
qed


theorem build_options_uniform_witness:
  "Print_plan \<lparr>remove_actions = [zlib],
               install_actions = [\<lparr>install_spec = zlib, build_options = 0\<rparr>],
               warnings = []\<rparr>
     \<in> set (trace (perform_and_exit (example_world\<lparr>specs := [zlib]\<rparr>)))
   \<and> create_upgrade_plan (example_world\<lparr>specs := [zlib]\<rparr>) example_provider [zlib] example_db
        \<lparr>host_triplet = ''x64-linux'', unsupported_port_action = Error\<rparr>
      = Inr \<lparr>remove_actions = [zlib],
             install_actions = [\<lparr>install_spec = zlib, build_options = 7\<rparr>],
             warnings = []\<rparr>
   \<and> default_build_package_options (example_world\<lparr>specs := [zlib]\<rparr>) = 0
   \<and> list_all (\<lambda>a. build_options a = 0)
        (install_actions \<lparr>remove_actions = [zlib],
               install_actions = [\<lparr>install_spec = zlib, build_options = (0::nat)\<rparr>],
               warnings = []\<rparr>)"
  using build_options_uniform
    [of "Print_plan \<lparr>remove_actions = [zlib],
               install_actions = [\<lparr>install_spec = zlib, build_options = 0\<rparr>],
               warnings = []\<rparr>"
        "example_world\<lparr>specs := [zlib]\<rparr>"
        "\<lparr>remove_actions = [zlib],
               install_actions = [\<lparr>install_spec = zlib, build_options = 0\<rparr>],
               warnings = []\<rparr>"]
  by (simp add: example_defs run_defs)


section \<open>Execution\<close>




end
